theory Spec2Isabelle
  imports Complex_Main "HOL-Library.Multiset"
begin

section \<open>JavaScript numbers\<close>

text \<open>
  The analysis engine computes on JavaScript numbers. The model keeps the three special
  values that decide control flow in the engine (\<open>NaN\<close> and the two infinities) and
  takes every other number as an exact real: rounding, overflow of finite operations and
  the sign of zero are not modelled (every zero is \<open>+0\<close>).
\<close>

datatype number = Fin real | PInf | NInf | NaN

fun js_neg :: "number \<Rightarrow> number" where
  "js_neg (Fin a) = Fin (- a)"
| "js_neg PInf = NInf"
| "js_neg NInf = PInf"
| "js_neg NaN = NaN"

fun js_add :: "number \<Rightarrow> number \<Rightarrow> number" where
  "js_add NaN _ = NaN"
| "js_add _ NaN = NaN"
| "js_add (Fin a) (Fin b) = Fin (a + b)"
| "js_add PInf NInf = NaN"
| "js_add NInf PInf = NaN"
| "js_add PInf _ = PInf"
| "js_add NInf _ = NInf"
| "js_add _ PInf = PInf"
| "js_add _ NInf = NInf"

definition js_sub :: "number \<Rightarrow> number \<Rightarrow> number" where
  "js_sub a b = js_add a (js_neg b)"

fun js_mul :: "number \<Rightarrow> number \<Rightarrow> number" where
  "js_mul NaN _ = NaN"
| "js_mul _ NaN = NaN"
| "js_mul (Fin a) (Fin b) = Fin (a * b)"
| "js_mul PInf (Fin b) = (if b = 0 then NaN else if 0 < b then PInf else NInf)"
| "js_mul NInf (Fin b) = (if b = 0 then NaN else if 0 < b then NInf else PInf)"
| "js_mul (Fin a) PInf = (if a = 0 then NaN else if 0 < a then PInf else NInf)"
| "js_mul (Fin a) NInf = (if a = 0 then NaN else if 0 < a then NInf else PInf)"
| "js_mul PInf PInf = PInf"
| "js_mul PInf NInf = NInf"
| "js_mul NInf PInf = NInf"
| "js_mul NInf NInf = PInf"

fun js_div :: "number \<Rightarrow> number \<Rightarrow> number" where
  "js_div NaN _ = NaN"
| "js_div _ NaN = NaN"
| "js_div (Fin a) (Fin b) =
     (if b = 0 then (if a = 0 then NaN else if 0 < a then PInf else NInf)
      else Fin (a / b))"
| "js_div (Fin a) _ = Fin 0"
| "js_div PInf (Fin b) = (if 0 \<le> b then PInf else NInf)"
| "js_div NInf (Fin b) = (if 0 \<le> b then NInf else PInf)"
| "js_div _ _ = NaN"

text \<open>The comparison operators: every comparison with \<open>NaN\<close> is false.\<close>

fun js_lt :: "number \<Rightarrow> number \<Rightarrow> bool" where
  "js_lt NaN _ = False"
| "js_lt _ NaN = False"
| "js_lt (Fin a) (Fin b) = (a < b)"
| "js_lt (Fin a) PInf = True"
| "js_lt (Fin a) NInf = False"
| "js_lt PInf _ = False"
| "js_lt NInf NInf = False"
| "js_lt NInf _ = True"

fun js_le :: "number \<Rightarrow> number \<Rightarrow> bool" where
  "js_le NaN _ = False"
| "js_le _ NaN = False"
| "js_le (Fin a) (Fin b) = (a \<le> b)"
| "js_le (Fin a) PInf = True"
| "js_le (Fin a) NInf = False"
| "js_le PInf PInf = True"
| "js_le PInf _ = False"
| "js_le NInf _ = True"

definition js_gt :: "number \<Rightarrow> number \<Rightarrow> bool" where
  "js_gt a b = js_lt b a"

definition js_ge :: "number \<Rightarrow> number \<Rightarrow> bool" where
  "js_ge a b = js_le b a"

text \<open>\<open>Math.abs\<close>, \<open>Math.min\<close> and \<open>Math.max\<close>; the last two return \<open>NaN\<close> as soon
  as one argument is \<open>NaN\<close>.\<close>

fun Math_abs :: "number \<Rightarrow> number" where
  "Math_abs (Fin a) = Fin \<bar>a\<bar>"
| "Math_abs PInf = PInf"
| "Math_abs NInf = PInf"
| "Math_abs NaN = NaN"

definition Math_min :: "number \<Rightarrow> number \<Rightarrow> number" where
  "Math_min a b = (if a = NaN \<or> b = NaN then NaN else if js_lt a b then a else b)"

definition Math_max :: "number \<Rightarrow> number \<Rightarrow> number" where
  "Math_max a b = (if a = NaN \<or> b = NaN then NaN else if js_lt a b then b else a)"

text \<open>Truthiness of a number: \<open>0\<close> and \<open>NaN\<close> are falsy; \<open>x || d\<close> on a possibly
  missing number (\<open>undefined\<close> is \<open>None\<close>).\<close>

definition truthy :: "number \<Rightarrow> bool" where
  "truthy x = (x \<noteq> Fin 0 \<and> x \<noteq> NaN)"

definition js_or :: "number \<Rightarrow> number \<Rightarrow> number" where
  "js_or x d = (if truthy x then x else d)"

definition js_or_opt :: "number option \<Rightarrow> number \<Rightarrow> number" where
  "js_or_opt x d = (case x of None \<Rightarrow> d | Some v \<Rightarrow> js_or v d)"

section \<open>Arrays\<close>

text \<open>\<open>Array.prototype.slice(start, end)\<close>: a negative index counts from the end, both
  indices are clamped to the array, and a missing \<open>end\<close> is the length.\<close>

definition slice_index :: "nat \<Rightarrow> int \<Rightarrow> nat" where
  "slice_index len i = (if i < 0 then nat (max (int len + i) 0) else min (nat i) len)"

definition js_slice :: "'a list \<Rightarrow> int \<Rightarrow> int option \<Rightarrow> 'a list" where
  "js_slice xs start fin =
     (let len = length xs;
          k = slice_index len start;
          e = (case fin of None \<Rightarrow> len | Some j \<Rightarrow> slice_index len j)
      in take (e - k) (drop k xs))"

text \<open>Reading a number array at an index: out of range the read yields \<open>undefined\<close>,
  which every arithmetic operation and comparison of the engine converts to \<open>NaN\<close>.\<close>

definition js_index :: "number list \<Rightarrow> int \<Rightarrow> number" where
  "js_index xs i = (if 0 \<le> i \<and> i < int (length xs) then xs ! nat i else NaN)"

text \<open>\<open>xs.reduce((sum, v) => sum + v, 0)\<close>.\<close>

definition js_sum :: "number list \<Rightarrow> number" where
  "js_sum xs = foldl js_add (Fin 0) xs"

text \<open>\<open>xs && xs.length > 0 ? xs[xs.length - 1] : d\<close>, for an array and for a value that
  may be \<open>null\<close>.\<close>

definition latest :: "'a list \<Rightarrow> 'a \<Rightarrow> 'a" where
  "latest xs d = (if length xs > 0 then last xs else d)"

definition latest_opt :: "'a list option \<Rightarrow> 'a \<Rightarrow> 'a" where
  "latest_opt v d = (case v of None \<Rightarrow> d | Some xs \<Rightarrow> latest xs d)"

section \<open>Data model (types)\<close>

text \<open>The interfaces of the source, field for field. A few fields are renamed where the
  name is taken: \<open>open\<close> is \<open>open_price\<close>, the \<open>volume\<close> of the breakdown is
  \<open>volume_score\<close>, the \<open>type\<close> and \<open>trend\<close> of an asset are \<open>asset_type\<close> and
  \<open>trend_analysis\<close>, and the fields of the nested objects of the Bollinger bands and of
  the stochastic oscillator carry a prefix.\<close>

record PriceData =
  date :: string
  open_price :: number
  high :: number
  low :: number
  close :: number
  volume :: number

record MacdValue =
  MACD :: number
  signal :: number
  histogram :: number

record SmaValues =
  sma20 :: number
  sma50 :: number
  sma200 :: number

record EmaValues =
  ema12 :: number
  ema26 :: number

record BollingerValue =
  bb_upper :: number
  bb_middle :: number
  bb_lower :: number

record StochasticValue =
  stoch_k :: number
  stoch_d :: number

record TechnicalIndicators =
  rsi :: number
  macd :: MacdValue
  sma :: SmaValues
  ema :: EmaValues
  bollingerBands :: BollingerValue
  stochastic :: StochasticValue
  adx :: number
  obv :: number
  volumeSMA :: number

datatype VolumeTrend = Increasing | Decreasing | Stable

record FundamentalData =
  peRatio :: "number option"
  marketCap :: "number option"
  priceToBook :: "number option"
  volumeTrend :: VolumeTrend
  averageVolume :: number

datatype Direction = Uptrend | Downtrend | Sideways

datatype Crossover = Bullish | Bearish | NoCross

record TrendAnalysis =
  direction :: Direction
  strength :: number
  reversalSignal :: bool
  movingAverageCrossover :: Crossover

record Breakdown =
  technical :: number
  trend :: number
  volume_score :: number

record MomentumScore =
  score :: number
  shortTerm :: number
  longTerm :: number
  breakdown :: Breakdown

datatype AssetType = Us_stock | Indian_stock | Crypto

datatype RecommendationLabel = Strong_buy | Buy | Hold | Sell | Strong_sell

record Asset =
  symbol :: string
  name :: string
  asset_type :: AssetType
  currentPrice :: number
  priceChange :: number
  priceChangePercent :: number
  priceData :: "PriceData list"
  technicalIndicators :: TechnicalIndicators
  fundamentals :: FundamentalData
  trend_analysis :: TrendAnalysis
  momentum :: MomentumScore
  overallScore :: number
  recommendation :: RecommendationLabel
  confidence :: number

text \<open>What the engine raises: the insufficient-data \<open>Error\<close> of
  \<open>calculateTechnicalIndicators\<close> (with the number of bars it got) and the \<open>TypeError\<close>
  of reading a field of \<open>undefined\<close>.\<close>

datatype error = InsufficientData nat | TypeError

section \<open>The indicator library\<close>

text \<open>
  \<open>calculateTechnicalIndicators\<close> calls the calculators of the npm package
  \<open>technicalindicators\<close>, which is not part of the repository. The engine is modelled
  over any implementation of these calculators: each is a total function from its input
  arrays and periods to the array of values it returns. The MACD and ADX calculators
  return objects whose fields may be missing.
\<close>

record MacdOutput =
  out_MACD :: "number option"
  out_signal :: "number option"
  out_histogram :: "number option"

record AdxOutput =
  out_adx :: "number option"
  out_pdi :: "number option"
  out_mdi :: "number option"

record TALib =
  RSI_calculate :: "number list \<Rightarrow> nat \<Rightarrow> number list"
  MACD_calculate :: "number list \<Rightarrow> nat \<Rightarrow> nat \<Rightarrow> nat \<Rightarrow> bool \<Rightarrow> bool \<Rightarrow> MacdOutput list"
  SMA_calculate :: "number list \<Rightarrow> nat \<Rightarrow> number list"
  EMA_calculate :: "number list \<Rightarrow> nat \<Rightarrow> number list"
  BollingerBands_calculate :: "number list \<Rightarrow> nat \<Rightarrow> number \<Rightarrow> BollingerValue list"
  Stochastic_calculate ::
    "number list \<Rightarrow> number list \<Rightarrow> number list \<Rightarrow> nat \<Rightarrow> nat \<Rightarrow> StochasticValue list"
  ADX_calculate :: "number list \<Rightarrow> number list \<Rightarrow> number list \<Rightarrow> nat \<Rightarrow> AdxOutput list"

section \<open>technicalIndicators.ts\<close>

text \<open>One round of the loop of \<open>calculateOBV\<close>, at index \<open>i\<close>.\<close>

definition obv_step :: "PriceData list \<Rightarrow> nat \<Rightarrow> number \<Rightarrow> number" where
  "obv_step pd i acc =
     (let currentClose = close (pd ! i);
          previousClose = close (pd ! (i - 1));
          vol = volume (pd ! i)
      in if js_gt currentClose previousClose then js_add acc vol
         else if js_lt currentClose previousClose then js_sub acc vol
         else acc)"

text \<open>\<open>for (let i = 1; i < priceData.length; i++)\<close>, from \<open>obv = 0\<close>.\<close>

definition calculateOBV :: "PriceData list \<Rightarrow> number" where
  "calculateOBV pd = fold (obv_step pd) [1 ..< length pd] (Fin 0)"

text \<open>The body of \<open>calculateTechnicalIndicators\<close> after its length check.\<close>

definition computeIndicators :: "TALib \<Rightarrow> PriceData list \<Rightarrow> TechnicalIndicators" where
  "computeIndicators lib pd =
     (let closes = map close pd;
          highs = map high pd;
          lows = map low pd;
          volumes = map volume pd;
          lastClose = js_index closes (int (length closes) - 1);
          rsiValues = RSI_calculate lib closes 14;
          rsi_v = latest rsiValues (Fin 50);
          macdValues = MACD_calculate lib closes 12 26 9 False False;
          latestMacd = latest macdValues
            \<lparr>out_MACD = Some (Fin 0), out_signal = Some (Fin 0), out_histogram = Some (Fin 0)\<rparr>;
          sma20Values = (if length pd \<ge> 20 then Some (SMA_calculate lib closes 20) else None);
          sma50Values = (if length pd \<ge> 50 then Some (SMA_calculate lib closes 50) else None);
          sma200Values = (if length pd \<ge> 200 then Some (SMA_calculate lib closes 200) else None);
          sma20_v = latest_opt sma20Values lastClose;
          sma50_v = latest_opt sma50Values lastClose;
          sma200_v = latest_opt sma200Values (latest_opt sma50Values lastClose);
          ema12Values = EMA_calculate lib closes 12;
          ema26Values = EMA_calculate lib closes 26;
          ema12_v = latest ema12Values lastClose;
          ema26_v = latest ema26Values lastClose;
          bbValues = BollingerBands_calculate lib closes 20 (Fin 2);
          latestBB = latest bbValues
            \<lparr>bb_upper = lastClose, bb_middle = lastClose, bb_lower = lastClose\<rparr>;
          stochasticValues = Stochastic_calculate lib highs lows closes 14 3;
          latestStochastic = latest stochasticValues \<lparr>stoch_k = Fin 50, stoch_d = Fin 50\<rparr>;
          adxValues = ADX_calculate lib highs lows closes 14;
          adx_v = (if length adxValues > 0
                   then (case out_adx (last adxValues) of
                           None \<Rightarrow> Fin 25
                         | Some v \<Rightarrow> if truthy v then v else Fin 25)
                   else Fin 25);
          obv_v = calculateOBV pd;
          volumeSMAValues = SMA_calculate lib volumes 20;
          volumeSMA_v = latest volumeSMAValues (js_index volumes (int (length volumes) - 1))
      in \<lparr>rsi = rsi_v,
          macd = \<lparr>MACD = js_or_opt (out_MACD latestMacd) (Fin 0),
                   signal = js_or_opt (out_signal latestMacd) (Fin 0),
                   histogram = js_or_opt (out_histogram latestMacd) (Fin 0)\<rparr>,
          sma = \<lparr>sma20 = sma20_v, sma50 = sma50_v, sma200 = sma200_v\<rparr>,
          ema = \<lparr>ema12 = ema12_v, ema26 = ema26_v\<rparr>,
          bollingerBands = \<lparr>bb_upper = bb_upper latestBB, bb_middle = bb_middle latestBB,
                             bb_lower = bb_lower latestBB\<rparr>,
          stochastic = \<lparr>stoch_k = stoch_k latestStochastic, stoch_d = stoch_d latestStochastic\<rparr>,
          adx = adx_v,
          obv = obv_v,
          volumeSMA = volumeSMA_v\<rparr>)"

definition calculateTechnicalIndicators :: "TALib \<Rightarrow> PriceData list \<Rightarrow> error + TechnicalIndicators" where
  "calculateTechnicalIndicators lib pd =
     (if length pd < 50 then Inl (InsufficientData (length pd))
      else Inr (computeIndicators lib pd))"

section \<open>trends.ts\<close>

text \<open>One round of the loop of \<open>calculateEMA\<close>, at index \<open>i\<close>.\<close>

definition ema_step :: "number list \<Rightarrow> number \<Rightarrow> nat \<Rightarrow> number \<Rightarrow> number" where
  "ema_step vals multiplier i e =
     js_add (js_mul (js_sub (js_index vals (int i)) e) multiplier) e"

definition calculateEMA :: "number list \<Rightarrow> nat \<Rightarrow> number" where
  "calculateEMA vals period =
     (if length vals < period then js_index vals (int (length vals) - 1)
      else
        let multiplier = js_div (Fin 2) (Fin (real period + 1));
            seed = js_div (js_sum (js_slice vals 0 (Some (int period)))) (Fin (real period))
        in fold (ema_step vals multiplier) [period ..< length vals] seed)"

datatype TrendDir = Up | Down

text \<open>One round of the counting loop of \<open>calculateTrendStrength\<close>, at index \<open>i\<close>.\<close>

definition consistent_step :: "TrendDir \<Rightarrow> number list \<Rightarrow> nat \<Rightarrow> nat \<Rightarrow> nat" where
  "consistent_step dir recentPrices i consistentDays =
     (if dir = Up \<and> js_ge (recentPrices ! i) (recentPrices ! (i - 1)) then consistentDays + 1
      else if dir = Down \<and> js_le (recentPrices ! i) (recentPrices ! (i - 1)) then consistentDays + 1
      else consistentDays)"

definition calculateTrendStrength :: "PriceData list \<Rightarrow> TrendDir \<Rightarrow> number" where
  "calculateTrendStrength pd dir =
     (let recentPrices = map close (js_slice pd (- 20) None);
          firstPrice = js_index recentPrices 0;
          lastPrice = js_index recentPrices (int (length recentPrices) - 1);
          priceChange_v =
            (if dir = Up
             then js_mul (js_div (js_sub lastPrice firstPrice) firstPrice) (Fin 100)
             else js_mul (js_div (js_sub firstPrice lastPrice) firstPrice) (Fin 100));
          consistentDays =
            fold (consistent_step dir recentPrices) [1 ..< length recentPrices] (0::nat);
          consistency =
            js_mul (js_div (Fin (real consistentDays))
                           (Fin (real_of_int (int (length recentPrices) - 1)))) (Fin 100)
      in Math_min (Fin 100) (js_add (js_mul priceChange_v (Fin 2)) (js_mul consistency (Fin 0.5))))"

definition detectReversal :: "PriceData list \<Rightarrow> TechnicalIndicators \<Rightarrow> bool" where
  "detectReversal pd indicators =
     (let recentPrices = map close (js_slice pd (- 14) None);
          priceTrend =
            (if js_gt (js_index recentPrices (int (length recentPrices) - 1)) (js_index recentPrices 0)
             then Up else Down);
          rsiOverbought = js_gt (rsi indicators) (Fin 70);
          rsiOversold = js_lt (rsi indicators) (Fin 30)
      in if priceTrend = Up \<and> rsiOverbought \<and> js_lt (histogram (macd indicators)) (Fin 0) then True
         else if priceTrend = Down \<and> rsiOversold \<and> js_gt (histogram (macd indicators)) (Fin 0) then True
         else False)"

text \<open>\<open>analyzeTrend\<close> reads \<open>priceData[priceData.length - 1].close\<close> first: on an empty
  array that is a field of \<open>undefined\<close>, a \<open>TypeError\<close>.\<close>

definition analyzeTrend :: "TechnicalIndicators \<Rightarrow> PriceData list \<Rightarrow> error + TrendAnalysis" where
  "analyzeTrend ti pd =
     (if pd = [] then Inl TypeError
      else
        let currentPrice_v = close (last pd);
            s20 = sma20 (sma ti); s50 = sma50 (sma ti); s200 = sma200 (sma ti);
            e12 = ema12 (ema ti); e26 = ema26 (ema ti);
            crossover =
              (if length pd \<ge> 2
               then
                 let prevEma12 = calculateEMA (map close (js_slice pd 0 (Some (- 1)))) 12;
                     prevEma26 = calculateEMA (map close (js_slice pd 0 (Some (- 1)))) 26
                 in if js_gt e12 e26 \<and> js_le prevEma12 prevEma26 then Bullish
                    else if js_lt e12 e26 \<and> js_ge prevEma12 prevEma26 then Bearish
                    else NoCross
               else NoCross);
            (dir, str) =
              (if js_gt currentPrice_v s20 \<and> js_gt s20 s50 \<and> js_gt s50 s200
               then (Uptrend, calculateTrendStrength pd Up)
               else if js_lt currentPrice_v s20 \<and> js_lt s20 s50 \<and> js_lt s50 s200
               then (Downtrend, calculateTrendStrength pd Down)
               else (Sideways, Fin 25));
            reversal = detectReversal pd ti
        in Inr \<lparr>direction = dir,
                strength = Math_max (Fin 0) (Math_min (Fin 100) str),
                reversalSignal = reversal,
                movingAverageCrossover = crossover\<rparr>)"

section \<open>momentum.ts\<close>

text \<open>The sub-scores of \<open>calculateMomentumScore\<close>, one definition for each \<open>const\<close> of
  the source.\<close>

definition rsiScore :: "TechnicalIndicators \<Rightarrow> number" where
  "rsiScore ti =
     (if js_lt (rsi ti) (Fin 30)
      then js_sub (Fin 100) (js_mul (js_div (rsi ti) (Fin 30)) (Fin 50))
      else if js_gt (rsi ti) (Fin 70)
      then js_sub (Fin 50) (js_mul (js_div (js_sub (rsi ti) (Fin 70)) (Fin 30)) (Fin 50))
      else js_add (Fin 50)
             (js_mul (js_div (js_sub (Fin 50) (Math_abs (js_sub (rsi ti) (Fin 50)))) (Fin 20))
                     (Fin 30)))"

definition macdScore :: "TechnicalIndicators \<Rightarrow> number \<Rightarrow> number" where
  "macdScore ti currentPrice_v =
     (if js_gt (MACD (macd ti)) (signal (macd ti))
      then js_add (Fin 50)
             (Math_min (Fin 50) (js_mul (js_div (histogram (macd ti)) currentPrice_v) (Fin 10000)))
      else js_sub (Fin 50)
             (Math_min (Fin 50)
                (js_mul (Math_abs (js_div (histogram (macd ti)) currentPrice_v)) (Fin 10000))))"

definition smaScore :: "TechnicalIndicators \<Rightarrow> number \<Rightarrow> number" where
  "smaScore ti currentPrice_v =
     (if js_gt currentPrice_v (sma20 (sma ti))
      then (if js_gt currentPrice_v (sma50 (sma ti))
            then (if js_gt currentPrice_v (sma200 (sma ti)) then Fin 100 else Fin 75)
            else Fin 50)
      else Fin 25)"

definition bbPosition :: "TechnicalIndicators \<Rightarrow> number \<Rightarrow> number" where
  "bbPosition ti currentPrice_v =
     js_div (js_sub currentPrice_v (bb_lower (bollingerBands ti)))
            (js_sub (bb_upper (bollingerBands ti)) (bb_lower (bollingerBands ti)))"

definition bbScore :: "TechnicalIndicators \<Rightarrow> number \<Rightarrow> number" where
  "bbScore ti currentPrice_v =
     (if js_lt (bbPosition ti currentPrice_v) (Fin 0.2) then Fin 100
      else if js_gt (bbPosition ti currentPrice_v) (Fin 0.8) then Fin 0
      else js_add (Fin 50) (js_mul (js_sub (Fin 0.5) (bbPosition ti currentPrice_v)) (Fin 100)))"

definition stochasticScore :: "TechnicalIndicators \<Rightarrow> number" where
  "stochasticScore ti =
     (if js_lt (stoch_k (stochastic ti)) (Fin 20) then Fin 100
      else if js_gt (stoch_k (stochastic ti)) (Fin 80) then Fin 0
      else js_add (Fin 50) (js_mul (js_sub (Fin 50) (stoch_k (stochastic ti))) (Fin 0.625)))"

definition adxScore :: "TechnicalIndicators \<Rightarrow> number" where
  "adxScore ti =
     (if js_gt (adx ti) (Fin 25)
      then Math_min (Fin 100) (js_add (Fin 50) (js_mul (js_sub (adx ti) (Fin 25)) (Fin 2)))
      else js_mul (adx ti) (Fin 2))"

definition shortTermMomentum :: "number \<Rightarrow> number \<Rightarrow> number" where
  "shortTermMomentum currentPrice_v price20DaysAgo =
     js_mul (js_div (js_sub currentPrice_v price20DaysAgo) price20DaysAgo) (Fin 100)"

definition longTermMomentum :: "number \<Rightarrow> number \<Rightarrow> number" where
  "longTermMomentum currentPrice_v price50DaysAgo =
     js_mul (js_div (js_sub currentPrice_v price50DaysAgo) price50DaysAgo) (Fin 100)"

definition shortTermScore :: "number \<Rightarrow> number \<Rightarrow> number" where
  "shortTermScore currentPrice_v price20DaysAgo =
     js_add (Fin 50)
       (Math_min (Fin 50)
          (Math_max (Fin (- 50)) (js_mul (shortTermMomentum currentPrice_v price20DaysAgo) (Fin 5))))"

definition longTermScore :: "number \<Rightarrow> number \<Rightarrow> number" where
  "longTermScore currentPrice_v price50DaysAgo =
     js_add (Fin 50)
       (Math_min (Fin 50)
          (Math_max (Fin (- 50)) (js_mul (longTermMomentum currentPrice_v price50DaysAgo) (Fin 2))))"

definition recentVolume :: "PriceData list \<Rightarrow> number" where
  "recentVolume pd =
     js_div (foldl (\<lambda>sum d. js_add sum (js_or (volume d) (Fin 0))) (Fin 0) (js_slice pd (- 5) None))
            (Fin 5)"

definition volumeScore :: "TechnicalIndicators \<Rightarrow> PriceData list \<Rightarrow> number" where
  "volumeScore ti pd = (if js_gt (recentVolume pd) (volumeSMA ti) then Fin 75 else Fin 25)"

definition technicalScore :: "TechnicalIndicators \<Rightarrow> PriceData list \<Rightarrow> number \<Rightarrow> number" where
  "technicalScore ti pd currentPrice_v =
     js_add (js_add (js_add (js_add (js_add (js_add
       (js_mul (rsiScore ti) (Fin 0.15))
       (js_mul (macdScore ti currentPrice_v) (Fin 0.20)))
       (js_mul (smaScore ti currentPrice_v) (Fin 0.20)))
       (js_mul (bbScore ti currentPrice_v) (Fin 0.10)))
       (js_mul (stochasticScore ti) (Fin 0.10)))
       (js_mul (adxScore ti) (Fin 0.10)))
       (js_mul (volumeScore ti pd) (Fin 0.15))"

text \<open>\<open>Math.max(0, Math.min(100, x))\<close>, as applied to every returned field.\<close>

definition clamp100 :: "number \<Rightarrow> number" where
  "clamp100 x = Math_max (Fin 0) (Math_min (Fin 100) x)"

text \<open>\<open>calculateMomentumScore\<close> reads \<open>priceData[priceData.length - 1].close\<close> first, a
  \<open>TypeError\<close> on an empty array; on a non-empty array the two clamped indices are in
  range.\<close>

definition calculateMomentumScore :: "TechnicalIndicators \<Rightarrow> PriceData list \<Rightarrow> error + MomentumScore" where
  "calculateMomentumScore ti pd =
     (if pd = [] then Inl TypeError
      else
        let currentPrice_v = close (pd ! (length pd - 1));
            price20DaysAgo = close (pd ! nat (max 0 (int (length pd) - 20)));
            price50DaysAgo = close (pd ! nat (max 0 (int (length pd) - 50)));
            technical_v = technicalScore ti pd currentPrice_v;
            short_v = shortTermScore currentPrice_v price20DaysAgo;
            long_v = longTermScore currentPrice_v price50DaysAgo;
            overall =
              js_add (js_add (js_mul technical_v (Fin 0.6)) (js_mul short_v (Fin 0.25)))
                     (js_mul long_v (Fin 0.15))
        in Inr \<lparr>score = clamp100 overall,
                shortTerm = clamp100 short_v,
                longTerm = clamp100 long_v,
                breakdown = \<lparr>technical = clamp100 technical_v,
                              trend = clamp100 (adxScore ti),
                              volume_score = clamp100 (volumeScore ti pd)\<rparr>\<rparr>)"

section \<open>fundamentals.ts\<close>

text \<open>The local constants of \<open>analyzeFundamentals\<close>, one definition each.\<close>

definition recentVolumes :: "PriceData list \<Rightarrow> number list" where
  "recentVolumes pd = map volume (js_slice pd (- 20) None)"

definition olderVolumes :: "PriceData list \<Rightarrow> number list" where
  "olderVolumes pd = map volume (js_slice pd (- 40) (Some (- 20)))"

definition recentAvgVolume :: "PriceData list \<Rightarrow> number" where
  "recentAvgVolume pd = js_div (js_sum (recentVolumes pd)) (Fin (real (length (recentVolumes pd))))"

definition olderAvgVolume :: "PriceData list \<Rightarrow> number" where
  "olderAvgVolume pd = js_div (js_sum (olderVolumes pd)) (Fin (real (length (olderVolumes pd))))"

definition volumeChangePercent :: "PriceData list \<Rightarrow> number" where
  "volumeChangePercent pd =
     js_mul (js_div (js_sub (recentAvgVolume pd) (olderAvgVolume pd)) (olderAvgVolume pd)) (Fin 100)"

text \<open>Nothing in \<open>analyzeFundamentals\<close> can throw: it slices, maps and reduces arrays and
  computes on numbers, and reads no field of a value that may be \<open>undefined\<close>. It is
  therefore a function to \<open>FundamentalData\<close>, with no error result.\<close>

definition analyzeFundamentals ::
  "PriceData list \<Rightarrow> number option \<Rightarrow> number option \<Rightarrow> number option \<Rightarrow> FundamentalData" where
  "analyzeFundamentals pd marketCap_v peRatio_v priceToBook_v =
     (let volumeTrend_v =
            (if js_gt (volumeChangePercent pd) (Fin 10) then Increasing
             else if js_lt (volumeChangePercent pd) (Fin (- 10)) then Decreasing
             else Stable)
      in \<lparr>peRatio = peRatio_v, marketCap = marketCap_v, priceToBook = priceToBook_v,
          volumeTrend = volumeTrend_v, averageVolume = recentAvgVolume pd\<rparr>)"

section \<open>The batch routes\<close>

text \<open>
  The batch branch of the two \<open>GET\<close> handlers (crypto and Indian stocks): a \<open>for\<close> loop
  with a \<open>try\<close>/\<open>catch\<close> around each symbol's analysis, then a sort by overall score.
  The analysis of one symbol fetches from a provider, so it is a parameter of the model:
  a function from its arguments and the state of the outside world to its outcome (the
  asset, or what it threw) and the new state. Each \<open>await\<close> completes before the loop
  goes on, so the loop is sequential.
\<close>

record Coin =
  coin_id :: string
  coin_symbol :: string
  coin_name :: string

record Stock =
  stock_symbol :: string
  stock_name :: string

definition CRYPTO_COINS :: "Coin list" where
  "CRYPTO_COINS =
     [\<lparr>coin_id = ''bitcoin'', coin_symbol = ''BTC'', coin_name = ''Bitcoin''\<rparr>,
      \<lparr>coin_id = ''ethereum'', coin_symbol = ''ETH'', coin_name = ''Ethereum''\<rparr>,
      \<lparr>coin_id = ''binancecoin'', coin_symbol = ''BNB'', coin_name = ''BNB''\<rparr>,
      \<lparr>coin_id = ''solana'', coin_symbol = ''SOL'', coin_name = ''Solana''\<rparr>,
      \<lparr>coin_id = ''cardano'', coin_symbol = ''ADA'', coin_name = ''Cardano''\<rparr>,
      \<lparr>coin_id = ''ripple'', coin_symbol = ''XRP'', coin_name = ''XRP''\<rparr>,
      \<lparr>coin_id = ''polkadot'', coin_symbol = ''DOT'', coin_name = ''Polkadot''\<rparr>,
      \<lparr>coin_id = ''dogecoin'', coin_symbol = ''DOGE'', coin_name = ''Dogecoin''\<rparr>,
      \<lparr>coin_id = ''matic-network'', coin_symbol = ''MATIC'', coin_name = ''Polygon''\<rparr>,
      \<lparr>coin_id = ''avalanche-2'', coin_symbol = ''AVAX'', coin_name = ''Avalanche''\<rparr>]"

definition INDIAN_STOCKS :: "Stock list" where
  "INDIAN_STOCKS =
     [\<lparr>stock_symbol = ''RELIANCE'', stock_name = ''Reliance Industries Ltd''\<rparr>,
      \<lparr>stock_symbol = ''TCS'', stock_name = ''Tata Consultancy Services''\<rparr>,
      \<lparr>stock_symbol = ''HDFCBANK'', stock_name = ''HDFC Bank Ltd''\<rparr>,
      \<lparr>stock_symbol = ''INFY'', stock_name = ''Infosys Ltd''\<rparr>,
      \<lparr>stock_symbol = ''HINDUNILVR'', stock_name = ''Hindustan Unilever Ltd''\<rparr>,
      \<lparr>stock_symbol = ''ICICIBANK'', stock_name = ''ICICI Bank Ltd''\<rparr>,
      \<lparr>stock_symbol = ''BHARTIARTL'', stock_name = ''Bharti Airtel Ltd''\<rparr>,
      \<lparr>stock_symbol = ''SBIN'', stock_name = ''State Bank of India''\<rparr>,
      \<lparr>stock_symbol = ''BAJFINANCE'', stock_name = ''Bajaj Finance Ltd''\<rparr>,
      \<lparr>stock_symbol = ''LICI'', stock_name = ''Life Insurance Corporation of India''\<rparr>]"

text \<open>The loop: a success is pushed on \<open>assets\<close>, a failure is caught (and logged) and
  the loop continues with the next symbol.\<close>

fun batch_loop ::
  "('s \<Rightarrow> 'w \<Rightarrow> ('e + Asset) \<times> 'w) \<Rightarrow> 's list \<Rightarrow> Asset list \<Rightarrow> 'w \<Rightarrow> Asset list \<times> 'w" where
  "batch_loop analyze [] assets w = (assets, w)"
| "batch_loop analyze (c # cs) assets w =
     (case analyze c w of
        (Inr asset, w') \<Rightarrow> batch_loop analyze cs (assets @ [asset]) w'
      | (Inl err, w') \<Rightarrow> batch_loop analyze cs assets w')"

text \<open>
  \<open>assets.sort((a, b) => b.overallScore - a.overallScore)\<close>. The language requires the
  sort to be stable and to put \<open>b\<close> before \<open>a\<close> when the comparator is positive on
  \<open>(a, b)\<close>; when the comparator is not a consistent order (a \<open>NaN\<close> score) the order is
  left to the implementation, which still returns a permutation. The model is the stable
  insertion sort.
\<close>

fun insert_by :: "('a \<Rightarrow> 'a \<Rightarrow> number) \<Rightarrow> 'a \<Rightarrow> 'a list \<Rightarrow> 'a list" where
  "insert_by cmp x [] = [x]"
| "insert_by cmp x (y # ys) =
     (if js_gt (cmp x y) (Fin 0) then y # insert_by cmp x ys else x # y # ys)"

definition js_sort :: "('a \<Rightarrow> 'a \<Rightarrow> number) \<Rightarrow> 'a list \<Rightarrow> 'a list" where
  "js_sort cmp xs = foldr (insert_by cmp) xs []"

definition by_score_desc :: "Asset \<Rightarrow> Asset \<Rightarrow> number" where
  "by_score_desc a b = js_sub (overallScore b) (overallScore a)"

text \<open>The response of a batch request: its status and the fields of its JSON body.\<close>

record Response =
  status :: nat
  body_assets :: "Asset list"
  body_error :: "string option"
  body_message :: "string option"

definition crypto_GET_batch ::
  "(string \<Rightarrow> string \<Rightarrow> 'w \<Rightarrow> ('e + Asset) \<times> 'w) \<Rightarrow> 'w \<Rightarrow> Response \<times> 'w" where
  "crypto_GET_batch analyzeCrypto w =
     (let (assets, w') =
            batch_loop (\<lambda>coin. analyzeCrypto (coin_id coin) (coin_name coin))
              (js_slice CRYPTO_COINS 0 (Some 5)) [] w
      in (\<lparr>status = 200, body_assets = js_sort by_score_desc assets, body_error = None,
            body_message = None\<rparr>, w'))"

definition india_GET_batch ::
  "(string \<Rightarrow> string \<Rightarrow> 'w \<Rightarrow> ('e + Asset) \<times> 'w) \<Rightarrow> 'w \<Rightarrow> Response \<times> 'w" where
  "india_GET_batch analyzeStock w =
     (let (assets, w') =
            batch_loop (\<lambda>stock. analyzeStock (stock_symbol stock) (stock_name stock))
              (js_slice INDIAN_STOCKS 0 (Some 5)) [] w
      in if length assets = 0
         then (\<lparr>status = 503, body_assets = [],
                 body_error = Some ''All Indian stock requests failed. Check server logs for details.'',
                 body_message = Some (''Unable to fetch Indian stock data. '' @
                   ''This may be due to API rate limits or network issues.'')\<rparr>,
               w')
         else (\<lparr>status = 200, body_assets = js_sort by_score_desc assets, body_error = None,
                 body_message = None\<rparr>, w'))"

text \<open>The outcomes of the analyses of all symbols of a list, each run after the one
  before it, whatever the earlier ones returned; and the assets among outcomes.\<close>

fun run_all :: "('s \<Rightarrow> 'w \<Rightarrow> ('e + Asset) \<times> 'w) \<Rightarrow> 's list \<Rightarrow> 'w \<Rightarrow> ('e + Asset) list" where
  "run_all analyze [] w = []"
| "run_all analyze (c # cs) w = (case analyze c w of (r, w') \<Rightarrow> r # run_all analyze cs w')"

fun successes :: "('e + 'a) list \<Rightarrow> 'a list" where
  "successes [] = []"
| "successes (Inr a # rs) = a # successes rs"
| "successes (Inl e # rs) = successes rs"

section \<open>Notions of the specification\<close>

text \<open>\<open>clamp(x, lo, hi)\<close>, the percent change of a price against an earlier one, the mean
  of a window, and a series whose closes rise strictly from each bar to the next.\<close>

definition clamp :: "number \<Rightarrow> number \<Rightarrow> number \<Rightarrow> number" where
  "clamp x lo hi = Math_min hi (Math_max lo x)"

definition pct_change :: "number \<Rightarrow> number \<Rightarrow> number" where
  "pct_change cur earlier = js_mul (js_div (js_sub cur earlier) earlier) (Fin 100)"

definition window_mean :: "number list \<Rightarrow> number" where
  "window_mean xs = js_div (js_sum xs) (Fin (real (length xs)))"

definition strictly_rising :: "PriceData list \<Rightarrow> bool" where
  "strictly_rising pd =
     list_all (\<lambda>i. js_gt (close (pd ! i)) (close (pd ! (i - 1)))) [1 ..< length pd]"

text \<open>The bar \<open>k\<close> days before the last bar of a daily series (the last bar is at index
  \<open>length - 1\<close>), the index clamped to 0 on a shorter series.\<close>

definition bar_days_prior :: "PriceData list \<Rightarrow> nat \<Rightarrow> PriceData" where
  "bar_days_prior pd k = pd ! nat (max 0 (int (length pd) - 1 - int k))"

section \<open>Sample inputs\<close>

text \<open>A bar with one price and a volume; the scenario series of the specification
  (closes from 100 rising by 1 a day, flat volume 1000); a flat series that jumps
  at its last bar.\<close>

definition bar :: "number \<Rightarrow> number \<Rightarrow> PriceData" where
  "bar c v = \<lparr>date = [], open_price = c, high = c, low = c, close = c, volume = v\<rparr>"

definition rising :: "nat \<Rightarrow> PriceData list" where
  "rising n = map (\<lambda>i. bar (Fin (100 + real i)) (Fin 1000)) [0 ..< n]"


text \<open>A series that closes at 100 on its first bar and at 101 on each of the \<open>n\<close> bars
  after it.\<close>

definition step_up :: "nat \<Rightarrow> PriceData list" where
  "step_up n = bar (Fin 100) (Fin 1000) # replicate n (bar (Fin 101) (Fin 1000))"

text \<open>An implementation of the library interface to run the engine on: the simple moving
  average is the mean of each full window, the exponential one is the recurrence of
  \<open>calculateEMA\<close> (no value for a series shorter than the period), and the other
  calculators return no value, so that the engine takes its defaults.\<close>

definition sma_windows :: "number list \<Rightarrow> nat \<Rightarrow> number list" where
  "sma_windows vals period =
     (if period = 0 \<or> length vals < period then []
      else map (\<lambda>i. window_mean (take period (drop i vals))) [0 ..< length vals - period + 1])"

definition ema_latest :: "number list \<Rightarrow> nat \<Rightarrow> number list" where
  "ema_latest vals period = (if length vals < period then [] else [calculateEMA vals period])"

definition sample_lib :: TALib where
  "sample_lib =
     \<lparr>RSI_calculate = (\<lambda>vals period. []),
      MACD_calculate = (\<lambda>vals fast slow sig o1 o2. []),
      SMA_calculate = sma_windows,
      EMA_calculate = ema_latest,
      BollingerBands_calculate = (\<lambda>vals period sd. []),
      Stochastic_calculate = (\<lambda>hs ls cs period sig. []),
      ADX_calculate = (\<lambda>hs ls cs period. [])\<rparr>"

text \<open>An asset with a given symbol and overall score, and an analysis that fails for
  Ethereum and for TCS and succeeds for every other symbol; the state of the world counts
  the analyses run.\<close>

definition sample_asset :: "string \<Rightarrow> number \<Rightarrow> Asset" where
  "sample_asset ident sc =
     \<lparr>symbol = ident, name = ident, asset_type = Crypto,
      currentPrice = Fin 149, priceChange = Fin 0, priceChangePercent = Fin 0,
      priceData = [],
      technicalIndicators =
        \<lparr>rsi = Fin 50, macd = \<lparr>MACD = Fin 0, signal = Fin 0, histogram = Fin 0\<rparr>,
         sma = \<lparr>sma20 = Fin 149, sma50 = Fin 149, sma200 = Fin 149\<rparr>,
         ema = \<lparr>ema12 = Fin 149, ema26 = Fin 149\<rparr>,
         bollingerBands = \<lparr>bb_upper = Fin 149, bb_middle = Fin 149, bb_lower = Fin 149\<rparr>,
         stochastic = \<lparr>stoch_k = Fin 50, stoch_d = Fin 50\<rparr>,
         adx = Fin 25, obv = Fin 0, volumeSMA = Fin 1000\<rparr>,
      fundamentals =
        \<lparr>peRatio = None, marketCap = None, priceToBook = None, volumeTrend = Stable,
         averageVolume = Fin 1000\<rparr>,
      trend_analysis = \<lparr>direction = Sideways, strength = Fin 25, reversalSignal = False,
                         movingAverageCrossover = NoCross\<rparr>,
      momentum = \<lparr>score = Fin 50, shortTerm = Fin 50, longTerm = Fin 50,
                   breakdown = \<lparr>technical = Fin 50, trend = Fin 50, volume_score = Fin 25\<rparr>\<rparr>,
      overallScore = sc, recommendation = Hold, confidence = Fin 0\<rparr>"

definition sample_analyze :: "string \<Rightarrow> string \<Rightarrow> nat \<Rightarrow> (error + Asset) \<times> nat" where
  "sample_analyze ident nm w =
     (if ident = ''ethereum'' \<or> ident = ''TCS'' then (Inl TypeError, w + 1)
      else (Inr (sample_asset ident (Fin (real (length ident)))), w + 1))"

definition failing_analyze :: "string \<Rightarrow> string \<Rightarrow> nat \<Rightarrow> (error + Asset) \<times> nat" where
  "failing_analyze ident nm w = (Inl (InsufficientData 0), w + 1)"

section \<open>Facts about numbers and arrays\<close>

lemma js_gt_not_lt: "js_gt a b \<Longrightarrow> \<not> js_lt a b"
  by (cases a; cases b; simp add: js_gt_def)

lemma js_NaN_right: "js_sub a NaN = NaN" "js_div a NaN = NaN"
  by (cases a; simp add: js_sub_def)+

lemma clamp100_25: "Math_max (Fin 0) (Math_min (Fin 100) (Fin 25)) = Fin 25"
  by (simp add: Math_max_def Math_min_def)

lemma clamp100_half_band:
  "clamp100 (js_add (Fin 50) (clamp x (Fin (- 50)) (Fin 50))) =
     js_add (Fin 50) (clamp x (Fin (- 50)) (Fin 50))"
  by (cases x) (auto simp: clamp100_def clamp_def Math_min_def Math_max_def)

lemma js_sum_snoc: "js_sum (xs @ [v]) = js_add (js_sum xs) v"
  by (simp add: js_sum_def)

lemma slice_index_neg: "0 < k \<Longrightarrow> slice_index n (- int k) = n - k"
  unfolding slice_index_def by auto


lemma slice_index_m20: "slice_index n (- 20) = n - 20"
  using slice_index_neg [of 20 n] by simp

lemma slice_index_m40: "slice_index n (- 40) = n - 40"
  using slice_index_neg [of 40 n] by simp


lemma slice_recent: "js_slice pd (- 20) None = drop (length pd - 20) pd"
  by (simp add: js_slice_def Let_def slice_index_m20)

lemma slice_older:
  "40 \<le> length pd \<Longrightarrow> js_slice pd (- 40) (Some (- 20)) = take 20 (drop (length pd - 40) pd)"
  by (simp add: js_slice_def Let_def slice_index_m20 slice_index_m40)

lemma slice_older_short: "length pd \<le> 20 \<Longrightarrow> js_slice pd (- 40) (Some (- 20)) = []"
  by (simp add: js_slice_def Let_def slice_index_m20 slice_index_m40)

lemma last_close_index:
  "pd \<noteq> [] \<Longrightarrow> js_index (map close pd) (int (length pd) - 1) = close (last pd)"
  by (cases pd rule: rev_cases) (auto simp: js_index_def nth_append)

lemma js_gt_irrefl: "\<not> js_gt a a" "\<not> js_lt a a"
  by (cases a; simp add: js_gt_def)+

lemma slice_first5: "js_slice xs 0 (Some 5) = take 5 xs"
  by (simp add: js_slice_def slice_index_def Let_def min_def)





section \<open>Facts about the sample inputs\<close>

lemma length_rising: "length (rising n) = n"
  by (simp add: rising_def)



section \<open>The indicator engine\<close>

text \<open>
  Claim C2. \<open>calculateTechnicalIndicators\<close> throws its insufficient-data error if and only
  if the series has fewer than 50 bars (and throws nothing else); on a series of exactly
  50 bars it returns an indicator bundle. The calculators of the library are total
  functions here.
\<close>

theorem calculateTechnicalIndicators_throws_iff:
  "((\<exists>e. calculateTechnicalIndicators lib pd = Inl e) \<longleftrightarrow> length pd < 50) \<and>
   (calculateTechnicalIndicators lib pd = Inl (InsufficientData (length pd)) \<longleftrightarrow> length pd < 50) \<and>
   (length pd = 50 \<longrightarrow> (\<exists>b. calculateTechnicalIndicators lib pd = Inr b))"
  by (simp add: calculateTechnicalIndicators_def)

theorem calculateTechnicalIndicators_throws_iff_witness:
  "length (rising 50) = 50 \<and>
   (\<exists>b. calculateTechnicalIndicators sample_lib (rising 50) = Inr b) \<and>
   length (rising 49) < 50 \<and>
   calculateTechnicalIndicators sample_lib (rising 49) = Inl (InsufficientData (length (rising 49)))"
  using calculateTechnicalIndicators_throws_iff [of sample_lib "rising 50"]
    calculateTechnicalIndicators_throws_iff [of sample_lib "rising 49"]
  by (simp add: length_rising)

lemma computeIndicators_sma:
  "sma (computeIndicators lib pd) =
     \<lparr>sma20 = latest_opt (if 20 \<le> length pd then Some (SMA_calculate lib (map close pd) 20) else None)
                (js_index (map close pd) (int (length pd) - 1)),
      sma50 = latest_opt (if 50 \<le> length pd then Some (SMA_calculate lib (map close pd) 50) else None)
                (js_index (map close pd) (int (length pd) - 1)),
      sma200 = latest_opt (if 200 \<le> length pd then Some (SMA_calculate lib (map close pd) 200) else None)
                 (latest_opt (if 50 \<le> length pd then Some (SMA_calculate lib (map close pd) 50) else None)
                    (js_index (map close pd) (int (length pd) - 1)))\<rparr>"
  by (simp add: computeIndicators_def Let_def)


text \<open>
  Claim C3. On an accepted series of fewer than 200 bars the returned SMA200 is the
  returned SMA50; in the body of the function, with fewer than 50 bars (which the length
  check keeps from being reached) SMA50 and SMA200 both fall back to the last close. On a
  series of exactly 50 bars SMA200 equals SMA50.
\<close>

theorem sma_fallback:
  "(50 \<le> length pd \<and> length pd < 200 \<longrightarrow>
      (\<exists>b. calculateTechnicalIndicators lib pd = Inr b \<and> sma200 (sma b) = sma50 (sma b))) \<and>
   (pd \<noteq> [] \<and> length pd < 50 \<longrightarrow>
      sma50 (sma (computeIndicators lib pd)) = close (last pd) \<and>
      sma200 (sma (computeIndicators lib pd)) = close (last pd)) \<and>
   (length pd = 50 \<longrightarrow>
      (\<exists>b. calculateTechnicalIndicators lib pd = Inr b \<and> sma200 (sma b) = sma50 (sma b)))"
  by (auto simp: calculateTechnicalIndicators_def computeIndicators_def Let_def latest_opt_def
        last_close_index)

theorem sma_fallback_witness:
  "50 \<le> length (rising 50) \<and> length (rising 50) < 200 \<and>
   (\<exists>b. calculateTechnicalIndicators sample_lib (rising 50) = Inr b \<and>
        sma200 (sma b) = sma50 (sma b) \<and> sma50 (sma b) = Fin 124.5) \<and>
   rising 3 \<noteq> [] \<and> length (rising 3) < 50 \<and>
   sma50 (sma (computeIndicators sample_lib (rising 3))) = close (last (rising 3)) \<and>
   close (last (rising 3)) = Fin 102"
proof -
  have w: "sma_windows (map close (rising 50)) 50 = [Fin 124.5]"
    by code_simp
  have v: "sma50 (sma (computeIndicators sample_lib (rising 50))) = Fin 124.5"
    by (simp add: computeIndicators_sma length_rising latest_opt_def latest_def sample_lib_def w)
  have n: "rising 3 \<noteq> []"
    by code_simp
  have c: "close (last (rising 3)) = Fin 102"
    by code_simp
  show ?thesis
    using sma_fallback [of "rising 50" sample_lib] sma_fallback [of "rising 3" sample_lib] v n c
    by (auto simp: length_rising calculateTechnicalIndicators_def)
qed

subsection \<open>On-balance volume\<close>

lemma obv_step_append:
  assumes "i < length pd"
  shows "obv_step (pd @ [x]) i acc = obv_step pd i acc"
proof -
  from assms have "i - 1 < length pd" by arith
  with assms show ?thesis
    by (simp add: obv_step_def nth_append)
qed

lemma fold_obv_append:
  "fold (obv_step (pd @ [x])) [Suc 0 ..< length pd] acc = fold (obv_step pd) [Suc 0 ..< length pd] acc"
  by (rule fold_cong) (auto simp: obv_step_append fun_eq_iff)

lemma calculateOBV_snoc:
  assumes "pd \<noteq> []"
  shows "calculateOBV (pd @ [x]) = obv_step (pd @ [x]) (length pd) (calculateOBV pd)"
proof -
  from assms have "1 \<le> length pd" by (cases pd) auto
  then have "[1 ..< length (pd @ [x])] = [1 ..< length pd] @ [length pd]" by simp
  then show ?thesis
    by (simp add: calculateOBV_def fold_obv_append)
qed

lemma obv_step_last:
  "pd \<noteq> [] \<Longrightarrow> obv_step (pd @ [x]) (length pd) acc =
     (if js_gt (close x) (close (last pd)) then js_add acc (volume x)
      else if js_lt (close x) (close (last pd)) then js_sub acc (volume x)
      else acc)"
  by (simp add: obv_step_def Let_def nth_append last_conv_nth)

lemma strictly_rising_snoc:
  "strictly_rising (pd @ [x]) \<longleftrightarrow>
     strictly_rising pd \<and> (pd \<noteq> [] \<longrightarrow> js_gt (close x) (close (last pd)))"
proof (cases "pd = []")
  case True
  then show ?thesis by (simp add: strictly_rising_def)
next
  case False
  then have "1 \<le> length pd" by (cases pd) auto
  then have u: "[1 ..< length (pd @ [x])] = [1 ..< length pd] @ [length pd]" by simp
  have "list_all (\<lambda>i. js_gt (close ((pd @ [x]) ! i)) (close ((pd @ [x]) ! (i - 1)))) [1 ..< length pd]
        = list_all (\<lambda>i. js_gt (close (pd ! i)) (close (pd ! (i - 1)))) [1 ..< length pd]"
    by (rule list.pred_cong) (auto simp: nth_append)
  with False u show ?thesis
    by (simp add: strictly_rising_def nth_append last_conv_nth)
qed

lemma obv_rising: "strictly_rising pd \<Longrightarrow> calculateOBV pd = js_sum (map volume (tl pd))"
proof (induction pd rule: rev_induct)
  case Nil
  then show ?case by (simp add: calculateOBV_def js_sum_def)
next
  case (snoc x pd)
  show ?case
  proof (cases "pd = []")
    case True
    then show ?thesis by (simp add: calculateOBV_def js_sum_def)
  next
    case False
    with snoc.prems have r: "strictly_rising pd" and g: "js_gt (close x) (close (last pd))"
      by (simp_all add: strictly_rising_snoc)
    from False have "tl (pd @ [x]) = tl pd @ [x]" by (cases pd) auto
    with False r g snoc.IH show ?thesis
      by (simp add: calculateOBV_snoc obv_step_last js_sum_snoc)
  qed
qed

text \<open>
  Claim C4. The on-balance volume is the cumulative signed volume, seeded at 0 and taken
  from the second bar on: it is 0 on a series of at most one bar, and each further bar adds
  its volume when its close is above the close of the bar before, subtracts it when below,
  and leaves the value unchanged on a tie. Hence, when every close is strictly above the
  one before, it is the sum of the volumes of all bars but the first.
\<close>

theorem obv_cumulative_signed_volume:
  "calculateOBV [] = Fin 0 \<and> calculateOBV [b] = Fin 0 \<and>
   (pd \<noteq> [] \<longrightarrow>
      calculateOBV (pd @ [x]) =
        (if js_gt (close x) (close (last pd)) then js_add (calculateOBV pd) (volume x)
         else if js_lt (close x) (close (last pd)) then js_sub (calculateOBV pd) (volume x)
         else calculateOBV pd)) \<and>
   (strictly_rising pd \<longrightarrow> calculateOBV pd = js_sum (map volume (tl pd)))"
proof -
  have "calculateOBV [] = Fin 0" "calculateOBV [b] = Fin 0"
    by (simp_all add: calculateOBV_def)
  then show ?thesis
    by (simp add: calculateOBV_snoc obv_step_last obv_rising)
qed

theorem obv_cumulative_signed_volume_witness:
  "rising 60 \<noteq> [] \<and> strictly_rising (rising 60) \<and>
   calculateOBV (rising 60) = js_sum (map volume (tl (rising 60))) \<and>
   calculateOBV (rising 60) = Fin 59000 \<and>
   calculateOBV (rising 60 @ [bar (Fin 150) (Fin 500)]) = Fin 58500 \<and>
   calculateOBV (rising 60 @ [bar (Fin 159) (Fin 500)]) = Fin 59000"
proof -
  have n: "rising 60 \<noteq> []" by code_simp
  have r: "strictly_rising (rising 60)" by code_simp
  have v: "js_sum (map volume (tl (rising 60))) = Fin 59000" by code_simp
  have c: "close (last (rising 60)) = Fin 159" by code_simp
  from obv_cumulative_signed_volume [of "bar (Fin 100) (Fin 1000)" "rising 60" "bar (Fin 150) (Fin 500)"]
    obv_cumulative_signed_volume [of "bar (Fin 100) (Fin 1000)" "rising 60" "bar (Fin 159) (Fin 500)"]
    n r v c
  show ?thesis by (simp add: bar_def js_gt_def js_sub_def)
qed

section \<open>Trend analysis\<close>

subsection \<open>The exponential moving average of \<open>trends.ts\<close>\<close>







text \<open>
  Claim C1. On a series of at least 50 bars \<open>analyzeTrend\<close> returns, and its direction is
  \<open>uptrend\<close> exactly when last close > SMA20 > SMA50 > SMA200 (all strict),
  \<open>downtrend\<close> exactly when last close < SMA20 < SMA50 < SMA200, and \<open>sideways\<close> in
  every other case; a sideways trend has strength 25.
\<close>

theorem analyzeTrend_direction:
  assumes "50 \<le> length pd"
  shows "\<exists>r. analyzeTrend ti pd = Inr r \<and>
     (direction r = Uptrend \<longleftrightarrow>
        js_gt (close (last pd)) (sma20 (sma ti)) \<and> js_gt (sma20 (sma ti)) (sma50 (sma ti))
        \<and> js_gt (sma50 (sma ti)) (sma200 (sma ti))) \<and>
     (direction r = Downtrend \<longleftrightarrow>
        js_lt (close (last pd)) (sma20 (sma ti)) \<and> js_lt (sma20 (sma ti)) (sma50 (sma ti))
        \<and> js_lt (sma50 (sma ti)) (sma200 (sma ti))) \<and>
     (direction r = Sideways \<longleftrightarrow>
        \<not> (js_gt (close (last pd)) (sma20 (sma ti)) \<and> js_gt (sma20 (sma ti)) (sma50 (sma ti))
           \<and> js_gt (sma50 (sma ti)) (sma200 (sma ti))) \<and>
        \<not> (js_lt (close (last pd)) (sma20 (sma ti)) \<and> js_lt (sma20 (sma ti)) (sma50 (sma ti))
           \<and> js_lt (sma50 (sma ti)) (sma200 (sma ti)))) \<and>
     (direction r = Sideways \<longrightarrow> strength r = Fin 25)"
proof -
  from assms have ne: "pd \<noteq> []" by auto
  show ?thesis
    using ne js_gt_not_lt [of "close (last pd)" "sma20 (sma ti)"]
    by (auto simp: analyzeTrend_def Let_def clamp100_25)
qed

theorem analyzeTrend_direction_witness:
  "50 \<le> length (rising 60) \<and>
   (\<exists>r. analyzeTrend (computeIndicators sample_lib (rising 60)) (rising 60) = Inr r \<and>
        direction r = Sideways \<and> strength r = Fin 25) \<and>
   (\<exists>r. analyzeTrend
          (computeIndicators sample_lib (rising 60)
             \<lparr>sma := \<lparr>sma20 = Fin 150, sma50 = Fin 130, sma200 = Fin 110\<rparr>\<rparr>) (rising 60) = Inr r \<and>
        direction r = Uptrend)"
proof -
  have h: "50 \<le> length (rising 60)"
    by (simp add: length_rising)
  have s: "sma200 (sma (computeIndicators sample_lib (rising 60))) =
           sma50 (sma (computeIndicators sample_lib (rising 60)))"
    by (simp add: computeIndicators_sma length_rising latest_opt_def)
  have c: "close (last (rising 60)) = Fin 159"
    by code_simp
  from analyzeTrend_direction [OF h, of "computeIndicators sample_lib (rising 60)"] s
  have a: "\<exists>r. analyzeTrend (computeIndicators sample_lib (rising 60)) (rising 60) = Inr r \<and>
        direction r = Sideways \<and> strength r = Fin 25"
    by (auto simp: js_gt_irrefl)
  from analyzeTrend_direction [OF h, of "computeIndicators sample_lib (rising 60)
             \<lparr>sma := \<lparr>sma20 = Fin 150, sma50 = Fin 130, sma200 = Fin 110\<rparr>\<rparr>"] c
  have b: "\<exists>r. analyzeTrend
          (computeIndicators sample_lib (rising 60)
             \<lparr>sma := \<lparr>sma20 = Fin 150, sma50 = Fin 130, sma200 = Fin 110\<rparr>\<rparr>) (rising 60) = Inr r \<and>
        direction r = Uptrend"
    by (auto simp: js_gt_def)
  from h a b show ?thesis by blast
qed



section \<open>Momentum\<close>

text \<open>
  Claim C5, at the default RSI. The RSI sub-score is documented in the source as
  \<open>0-100, normalized\<close>; at RSI 50, the middle of the neutral band, it is 125.
\<close>

theorem rsiScore_neutral_midpoint:
  "rsiScore (ti\<lparr>rsi := Fin 50\<rparr>) = Fin 125 \<and> \<not> js_le (rsiScore (ti\<lparr>rsi := Fin 50\<rparr>)) (Fin 100)"
  by (simp add: rsiScore_def js_gt_def js_sub_def)

text \<open>
  What \<open>calculateMomentumScore\<close> computes on a series of at least one bar: it returns,
  its short-term component is 50 + clamp(5 pct, -50, 50) for the percent change pct of the
  last close against the close at index max(0, length - 20), and its long-term component
  is 50 + clamp(2 pct, -50, 50) for the percent change against the close at index
  max(0, length - 50). The clamp of the returned fields to [0, 100] changes nothing.
\<close>

lemma momentum_components_at_index:
  assumes "pd \<noteq> []"
  shows "\<exists>m. calculateMomentumScore ti pd = Inr m \<and>
     shortTerm m =
       js_add (Fin 50)
         (clamp (js_mul (pct_change (close (last pd))
                           (close (pd ! nat (max 0 (int (length pd) - 20))))) (Fin 5))
            (Fin (- 50)) (Fin 50)) \<and>
     longTerm m =
       js_add (Fin 50)
         (clamp (js_mul (pct_change (close (last pd))
                           (close (pd ! nat (max 0 (int (length pd) - 50))))) (Fin 2))
            (Fin (- 50)) (Fin 50))"
proof -
  have s: "shortTermScore c p =
      js_add (Fin 50) (clamp (js_mul (pct_change c p) (Fin 5)) (Fin (- 50)) (Fin 50))" for c p
    by (simp add: shortTermScore_def shortTermMomentum_def clamp_def pct_change_def)
  have l: "longTermScore c p =
      js_add (Fin 50) (clamp (js_mul (pct_change c p) (Fin 2)) (Fin (- 50)) (Fin 50))" for c p
    by (simp add: longTermScore_def longTermMomentum_def clamp_def pct_change_def)
  from assms show ?thesis
    by (simp add: calculateMomentumScore_def Let_def s l clamp100_half_band last_conv_nth)
qed

text \<open>
  Claim C6, where the code departs from it. The source names the two reference prices
  \<open>price20DaysAgo\<close> and \<open>price50DaysAgo\<close> and reads them at the indices
  \<open>length - 20\<close> and \<open>length - 50\<close>; the last bar being at \<open>length - 1\<close>, these are the
  bars 19 and 49 days before it. On the 21-bar series that closes at 100 and then twenty
  times at 101, the short-term component returned is 50 (no change against the bar 19 days
  prior), where 50 + clamp(5 pct, -50, 50) against the bar 20 days prior is 55; on the
  51-bar series of the same shape the long-term component returned is 50, where
  50 + clamp(2 pct, -50, 50) against the bar 50 days prior is 52.
\<close>

theorem momentum_lookback_off_by_one:
  "(\<exists>m. calculateMomentumScore ti (step_up 20) = Inr m \<and> shortTerm m = Fin 50) \<and>
   js_add (Fin 50)
     (clamp (js_mul (pct_change (close (last (step_up 20)))
                       (close (bar_days_prior (step_up 20) 20))) (Fin 5))
        (Fin (- 50)) (Fin 50)) = Fin 55 \<and>
   (\<exists>m. calculateMomentumScore ti (step_up 50) = Inr m \<and> longTerm m = Fin 50) \<and>
   js_add (Fin 50)
     (clamp (js_mul (pct_change (close (last (step_up 50)))
                       (close (bar_days_prior (step_up 50) 50))) (Fin 2))
        (Fin (- 50)) (Fin 50)) = Fin 52"
proof -
  have n: "step_up 20 \<noteq> []" "step_up 50 \<noteq> []"
    by (simp_all add: step_up_def)
  have s: "js_add (Fin 50)
     (clamp (js_mul (pct_change (close (last (step_up 20)))
                       (close (step_up 20 ! nat (max 0 (int (length (step_up 20)) - 20))))) (Fin 5))
        (Fin (- 50)) (Fin 50)) = Fin 50"
    by code_simp
  have l: "js_add (Fin 50)
     (clamp (js_mul (pct_change (close (last (step_up 50)))
                       (close (step_up 50 ! nat (max 0 (int (length (step_up 50)) - 50))))) (Fin 2))
        (Fin (- 50)) (Fin 50)) = Fin 50"
    by code_simp
  have s': "js_add (Fin 50)
     (clamp (js_mul (pct_change (close (last (step_up 20)))
                       (close (bar_days_prior (step_up 20) 20))) (Fin 5))
        (Fin (- 50)) (Fin 50)) = Fin 55"
    by code_simp
  have l': "js_add (Fin 50)
     (clamp (js_mul (pct_change (close (last (step_up 50)))
                       (close (bar_days_prior (step_up 50) 50))) (Fin 2))
        (Fin (- 50)) (Fin 50)) = Fin 52"
    by code_simp
  from momentum_components_at_index [OF n(1), of ti] s
  have a: "\<exists>m. calculateMomentumScore ti (step_up 20) = Inr m \<and> shortTerm m = Fin 50"
    by auto
  from momentum_components_at_index [OF n(2), of ti] l
  have b: "\<exists>m. calculateMomentumScore ti (step_up 50) = Inr m \<and> longTerm m = Fin 50"
    by auto
  from a b s' l' show ?thesis by blast
qed

section \<open>Fundamentals\<close>

text \<open>
  Claim C8. On a series of at least 40 bars the recent average volume is the mean of the
  volumes of the last 20 bars, the older one the mean of the 20 bars before them, and the
  volume change is (recent - older) / older * 100; \<open>analyzeFundamentals\<close> reports
  \<open>increasing\<close> exactly when the change is above 10, \<open>decreasing\<close> exactly when it is
  below -10 and \<open>stable\<close> otherwise, and its average volume is the recent average.
\<close>

theorem volume_trend_classification:
  assumes "40 \<le> length pd"
  shows "recentAvgVolume pd = js_div (js_sum (map volume (drop (length pd - 20) pd))) (Fin 20) \<and>
     olderAvgVolume pd = js_div (js_sum (map volume (take 20 (drop (length pd - 40) pd)))) (Fin 20) \<and>
     volumeChangePercent pd = pct_change (recentAvgVolume pd) (olderAvgVolume pd) \<and>
     (volumeTrend (analyzeFundamentals pd mc pe pb) = Increasing \<longleftrightarrow>
        js_gt (volumeChangePercent pd) (Fin 10)) \<and>
     (volumeTrend (analyzeFundamentals pd mc pe pb) = Decreasing \<longleftrightarrow>
        js_lt (volumeChangePercent pd) (Fin (- 10))) \<and>
     (volumeTrend (analyzeFundamentals pd mc pe pb) = Stable \<longleftrightarrow>
        \<not> js_gt (volumeChangePercent pd) (Fin 10) \<and> \<not> js_lt (volumeChangePercent pd) (Fin (- 10))) \<and>
     averageVolume (analyzeFundamentals pd mc pe pb) = recentAvgVolume pd"
proof -
  from assms have r:
    "recentAvgVolume pd = js_div (js_sum (map volume (drop (length pd - 20) pd))) (Fin 20)"
    by (simp add: recentAvgVolume_def recentVolumes_def slice_recent)
  from assms have o:
    "olderAvgVolume pd = js_div (js_sum (map volume (take 20 (drop (length pd - 40) pd)))) (Fin 20)"
    by (simp add: olderAvgVolume_def olderVolumes_def slice_older)
  have p: "volumeChangePercent pd = pct_change (recentAvgVolume pd) (olderAvgVolume pd)"
    by (simp add: volumeChangePercent_def pct_change_def)
  have x: "js_gt v (Fin 10) \<Longrightarrow> \<not> js_lt v (Fin (- 10))" for v
    by (cases v) (simp_all add: js_gt_def)
  have c: "(volumeTrend (analyzeFundamentals pd mc pe pb) = Increasing \<longleftrightarrow>
        js_gt (volumeChangePercent pd) (Fin 10)) \<and>
     (volumeTrend (analyzeFundamentals pd mc pe pb) = Decreasing \<longleftrightarrow>
        js_lt (volumeChangePercent pd) (Fin (- 10))) \<and>
     (volumeTrend (analyzeFundamentals pd mc pe pb) = Stable \<longleftrightarrow>
        \<not> js_gt (volumeChangePercent pd) (Fin 10) \<and> \<not> js_lt (volumeChangePercent pd) (Fin (- 10))) \<and>
     averageVolume (analyzeFundamentals pd mc pe pb) = recentAvgVolume pd"
    using x [of "volumeChangePercent pd"] by (auto simp: analyzeFundamentals_def Let_def)
  from r o p c show ?thesis by blast
qed

theorem volume_trend_classification_witness:
  "40 \<le> length (rising 60) \<and>
   volumeChangePercent (rising 60) = Fin 0 \<and>
   volumeTrend (analyzeFundamentals (rising 60) None None None) = Stable \<and>
   averageVolume (analyzeFundamentals (rising 60) None None None) = Fin 1000"
proof -
  have h: "40 \<le> length (rising 60)" by (simp add: length_rising)
  have r: "js_div (js_sum (map volume (drop (length (rising 60) - 20) (rising 60)))) (Fin 20) = Fin 1000"
    by code_simp
  have o: "js_div (js_sum (map volume (take 20 (drop (length (rising 60) - 40) (rising 60))))) (Fin 20) = Fin 1000"
    by code_simp
  from volume_trend_classification [OF h, of None None None] r o
  show ?thesis using h by (simp add: pct_change_def js_sub_def js_gt_def)
qed

text \<open>
  Claim C10. On a series of at most 20 bars \<open>analyzeFundamentals\<close> (which has no error
  result) finds the older window empty, so that the older average is 0/0, that is
  \<open>NaN\<close>; the volume change is \<open>NaN\<close>, both threshold comparisons are false, and the
  volume trend returned is \<open>stable\<close>.
\<close>

theorem fundamentals_short_series:
  assumes "length pd \<le> 20"
  shows "olderVolumes pd = [] \<and> olderAvgVolume pd = NaN \<and> volumeChangePercent pd = NaN \<and>
     \<not> js_gt (volumeChangePercent pd) (Fin 10) \<and>
     \<not> js_lt (volumeChangePercent pd) (Fin (- 10)) \<and>
     volumeTrend (analyzeFundamentals pd mc pe pb) = Stable"
proof -
  from assms have e: "olderVolumes pd = []"
    by (simp add: olderVolumes_def slice_older_short)
  then have n: "olderAvgVolume pd = NaN"
    by (simp add: olderAvgVolume_def js_sum_def)
  then have p: "volumeChangePercent pd = NaN"
    by (simp add: volumeChangePercent_def js_NaN_right)
  with e n show ?thesis
    by (simp add: analyzeFundamentals_def js_gt_def)
qed

theorem fundamentals_short_series_witness:
  "length (rising 20) \<le> 20 \<and> olderAvgVolume (rising 20) = NaN \<and>
   volumeTrend (analyzeFundamentals (rising 20) None None None) = Stable"
proof -
  have h: "length (rising 20) \<le> 20" by (simp add: length_rising)
  from fundamentals_short_series [OF h, of None None None] h show ?thesis by simp
qed

section \<open>Batch analysis\<close>

lemma batch_loop_acc:
  "fst (batch_loop analyze cs acc w) = acc @ successes (run_all analyze cs w)"
proof (induction cs arbitrary: acc w)
  case Nil
  then show ?case by simp
next
  case (Cons c cs)
  then show ?case
    by (cases "analyze c w") (auto split: sum.splits)
qed

lemma mset_insert_by: "mset (insert_by cmp x ys) = add_mset x (mset ys)"
  by (induction ys) auto

lemma mset_js_sort: "mset (js_sort cmp xs) = mset xs"
  by (induction xs) (auto simp: js_sort_def mset_insert_by)

lemma length_run_all: "length (run_all analyze cs w) = length cs"
  by (induction cs arbitrary: w) (auto split: prod.splits)

text \<open>
  Claim C9. The loop returns exactly the assets of the analyses that succeeded, in the order
  of the symbols, and the analysis of every symbol of the list is run, whatever the ones
  before it returned. The assets in the response of each batch route are, up to the order
  the sort gives them, the assets of the successful analyses of its first five symbols: a
  failed analysis removes its own symbol and nothing else.
\<close>

theorem batch_failures_excluded:
  "fst (batch_loop analyze cs [] w) = successes (run_all analyze cs w) \<and>
   length (run_all analyze cs w) = length cs \<and>
   mset (body_assets (fst (crypto_GET_batch analyzeCrypto w1))) =
     mset (successes (run_all (\<lambda>coin. analyzeCrypto (coin_id coin) (coin_name coin))
                        (take 5 CRYPTO_COINS) w1)) \<and>
   mset (body_assets (fst (india_GET_batch analyzeStock w2))) =
     mset (successes (run_all (\<lambda>stock. analyzeStock (stock_symbol stock) (stock_name stock))
                        (take 5 INDIAN_STOCKS) w2))"
proof -
  have c: "mset (body_assets (fst (crypto_GET_batch analyzeCrypto w1))) =
     mset (successes (run_all (\<lambda>coin. analyzeCrypto (coin_id coin) (coin_name coin))
                        (take 5 CRYPTO_COINS) w1))"
    using batch_loop_acc [of "\<lambda>coin. analyzeCrypto (coin_id coin) (coin_name coin)" "take 5 CRYPTO_COINS" "[]" w1]
    by (auto simp: crypto_GET_batch_def slice_first5 mset_js_sort split: prod.splits)
  have i: "mset (body_assets (fst (india_GET_batch analyzeStock w2))) =
     mset (successes (run_all (\<lambda>stock. analyzeStock (stock_symbol stock) (stock_name stock))
                        (take 5 INDIAN_STOCKS) w2))"
    using batch_loop_acc [of "\<lambda>stock. analyzeStock (stock_symbol stock) (stock_name stock)" "take 5 INDIAN_STOCKS" "[]" w2]
    by (auto simp: india_GET_batch_def slice_first5 mset_js_sort split: prod.splits)
  from c i show ?thesis
    by (simp add: batch_loop_acc length_run_all)
qed

theorem batch_failures_excluded_witness:
  "map symbol (body_assets (fst (crypto_GET_batch sample_analyze 0))) =
     [''binancecoin'', ''bitcoin'', ''cardano'', ''solana''] \<and>
   mset (body_assets (fst (crypto_GET_batch sample_analyze 0))) =
     mset (successes (run_all (\<lambda>coin. sample_analyze (coin_id coin) (coin_name coin))
                        (take 5 CRYPTO_COINS) 0)) \<and>
   length (run_all (\<lambda>coin. sample_analyze (coin_id coin) (coin_name coin)) (take 5 CRYPTO_COINS) 0) = 5 \<and>
   snd (crypto_GET_batch sample_analyze 0) = 5 \<and>
   map symbol (body_assets (fst (india_GET_batch sample_analyze 0))) =
     [''HINDUNILVR'', ''RELIANCE'', ''HDFCBANK'', ''INFY''] \<and>
   status (fst (india_GET_batch failing_analyze 0)) = 503 \<and>
   body_assets (fst (india_GET_batch failing_analyze 0)) = [] \<and>
   successes (run_all (\<lambda>stock. failing_analyze (stock_symbol stock) (stock_name stock))
                (take 5 INDIAN_STOCKS) 0) = []"
proof -
  have a: "map symbol (body_assets (fst (crypto_GET_batch sample_analyze 0))) =
     [''binancecoin'', ''bitcoin'', ''cardano'', ''solana'']"
    by code_simp
  have b: "snd (crypto_GET_batch sample_analyze 0) = 5"
    by code_simp
  have c: "map symbol (body_assets (fst (india_GET_batch sample_analyze 0))) =
     [''HINDUNILVR'', ''RELIANCE'', ''HDFCBANK'', ''INFY'']"
    by code_simp
  have d: "status (fst (india_GET_batch failing_analyze 0)) = 503"
    by code_simp
  have e: "length (take 5 CRYPTO_COINS) = 5"
    by (simp add: CRYPTO_COINS_def)
  from batch_failures_excluded [of "\<lambda>coin. sample_analyze (coin_id coin) (coin_name coin)"
      "take 5 CRYPTO_COINS" 0 sample_analyze 0 failing_analyze 0]
  have f: "mset (body_assets (fst (crypto_GET_batch sample_analyze 0))) =
       mset (successes (run_all (\<lambda>coin. sample_analyze (coin_id coin) (coin_name coin))
                        (take 5 CRYPTO_COINS) 0))"
    and g: "length (run_all (\<lambda>coin. sample_analyze (coin_id coin) (coin_name coin)) (take 5 CRYPTO_COINS) 0) = 5"
    and h: "mset (body_assets (fst (india_GET_batch failing_analyze 0))) =
     mset (successes (run_all (\<lambda>stock. failing_analyze (stock_symbol stock) (stock_name stock))
                        (take 5 INDIAN_STOCKS) 0))"
    using e by simp_all
  have i: "body_assets (fst (india_GET_batch failing_analyze 0)) = []"
    by code_simp
  from h i have j: "successes (run_all (\<lambda>stock. failing_analyze (stock_symbol stock) (stock_name stock))
                (take 5 INDIAN_STOCKS) 0) = []"
    by simp
  from a b c d f g i j show ?thesis by blast
qed

end
